theory Spec2Isabelle
  imports Main "HOL-Library.Word"
begin

unbundle bit_operations_syntax

section \<open>The server publisher info table\<close>

subsection \<open>Database commands, transactions and responses\<close>

text \<open>
  The ledger's database interface is declared outside the two source files. The types
  below carry what \<^verbatim>\<open>DatabaseServerPublisherInfo\<close> reads and writes of them: a command
  has a type, a query string, positional bindings and the column types of the rows it
  reads; a transaction is the ordered list of its commands.
\<close>

datatype DBCommand_Type = READ | RUN | EXECUTE

datatype DBValue = string_value string | int_value int | bool_value bool

datatype RecordBindingType = INT_TYPE | BOOL_TYPE | STRING_TYPE

record DBCommand =
  type :: DBCommand_Type
  command :: string
  bindings :: "(nat \<times> DBValue) list"
  record_bindings :: "RecordBindingType list"

record DBTransaction =
  commands :: "DBCommand list"

text \<open>
  A response status is compared with \<^verbatim>\<open>OK\<close> only; every other enumerator is
  \<^verbatim>\<open>OTHER\<close> with its number. Of the result of a response the source reads the
  records alone (\<^verbatim>\<open>response->result->get_records()\<close>): they are the field
  \<^verbatim>\<open>records\<close>, and \<^verbatim>\<open>response_status\<close> is the field \<^verbatim>\<open>status\<close> of the source.
\<close>

datatype Status = OK | OTHER nat

type_synonym DBRecord = "DBValue list"

record DBCommandResponse =
  response_status :: Status
  records :: "DBRecord list"

text \<open>
  A server publisher info record. The banner type is declared outside the source files and
  stays a type parameter; a null banner pointer is \<^term>\<open>None\<close>. The status is the
  integer value of the PublisherStatus enumerator.
\<close>

record 'b ServerPublisherInfo =
  publisher_key :: string
  status :: int
  excluded :: bool
  address :: string
  banner :: "'b option"

datatype Result = LEDGER_OK | LEDGER_ERROR

text \<open>The constant \<^verbatim>\<open>table_name_\<close> of the source.\<close>

definition table_name :: string where
  "table_name = ''server_publisher_info''"

subsection \<open>Effects: transactions handed to the ledger, callbacks run\<close>

text \<open>
  An operation of the table hands transactions to the ledger and runs the caller's
  callback. Both are recorded, in order.
\<close>

record 'r effects =
  transactions_run :: "DBTransaction list"
  callback_runs :: "'r list"

definition run_callback :: "'r \<Rightarrow> 'r effects" where
  "run_callback r = \<lparr>transactions_run = [], callback_runs = [r]\<rparr>"

text \<open>
  Modelled from the spec: \<^verbatim>\<open>LedgerImpl::RunDBTransaction\<close> is not in the source files.
  The spec has every database operation a single transaction submitted to a serial
  execution facility whose completion callback fires exactly once, after the transaction
  commits or fails as a whole. The facility is the parameter \<^verbatim>\<open>ledger\<close>, from the
  transaction to the response it answers (a null response is \<^term>\<open>None\<close>).
\<close>

definition RunDBTransaction ::
  "(DBTransaction \<Rightarrow> DBCommandResponse option) \<Rightarrow> DBTransaction \<Rightarrow>
   (DBCommandResponse option \<Rightarrow> 'r effects) \<Rightarrow> 'r effects" where
  "RunDBTransaction ledger transaction callback =
     (let e = callback (ledger transaction)
      in e\<lparr>transactions_run := transaction # transactions_run e\<rparr>)"

text \<open>
  Modelled from the spec: \<^verbatim>\<open>OnResultCallback\<close> of the database utilities is not in the
  source files. The spec has the completion invoked once with success or failure.
\<close>

definition OnResultCallback :: "DBCommandResponse option \<Rightarrow> Result effects" where
  "OnResultCallback response =
     (case response of
        None \<Rightarrow> run_callback LEDGER_ERROR
      | Some r \<Rightarrow>
          if response_status r \<noteq> OK then run_callback LEDGER_ERROR
          else run_callback LEDGER_OK)"

text \<open>
  Modelled from the spec: the binding helpers of the database utilities are not in the
  source files. The spec has the upsert bind all four columns; a binding is the pair of
  its position and its value, added after the bindings the command already has.
\<close>

definition BindString :: "DBCommand \<Rightarrow> nat \<Rightarrow> string \<Rightarrow> DBCommand" where
  "BindString c i v = c\<lparr>bindings := bindings c @ [(i, string_value v)]\<rparr>"

definition BindInt :: "DBCommand \<Rightarrow> nat \<Rightarrow> int \<Rightarrow> DBCommand" where
  "BindInt c i v = c\<lparr>bindings := bindings c @ [(i, int_value v)]\<rparr>"

definition BindBool :: "DBCommand \<Rightarrow> nat \<Rightarrow> bool \<Rightarrow> DBCommand" where
  "BindBool c i v = c\<lparr>bindings := bindings c @ [(i, bool_value v)]\<rparr>"

definition push_back :: "DBTransaction \<Rightarrow> DBCommand \<Rightarrow> DBTransaction" where
  "push_back transaction c = transaction\<lparr>commands := commands transaction @ [c]\<rparr>"

subsection \<open>Schema migration\<close>

text \<open>
  A migration step takes the transaction and returns whether it succeeded together with
  the transaction as it left it. \<^verbatim>\<open>DropTable\<close>, \<^verbatim>\<open>InsertIndex\<close> and the banner
  store's \<^verbatim>\<open>Migrate\<close> are outside the source files and are parameters.
\<close>

type_synonym step_result = "bool \<times> DBTransaction"

definition CreateTableV7 :: "DBTransaction \<Rightarrow> step_result" where
  "CreateTableV7 transaction =
     (let query = ''CREATE TABLE '' @ table_name @ '' ('' @
            ''publisher_key LONGVARCHAR PRIMARY KEY NOT NULL UNIQUE,'' @
            ''status INTEGER DEFAULT 0 NOT NULL,'' @
            ''excluded INTEGER DEFAULT 0 NOT NULL,'' @
            ''address TEXT NOT NULL'' @
            '')'';
          c = \<lparr>type = EXECUTE, command = query, bindings = [], record_bindings = []\<rparr>
      in (True, push_back transaction c))"

definition CreateIndexV7 ::
  "(DBTransaction \<Rightarrow> string \<Rightarrow> string \<Rightarrow> step_result) \<Rightarrow> DBTransaction \<Rightarrow> step_result" where
  "CreateIndexV7 InsertIndex transaction = InsertIndex transaction table_name ''publisher_key''"

definition MigrateToV7 ::
  "(DBTransaction \<Rightarrow> string \<Rightarrow> step_result) \<Rightarrow>
   (DBTransaction \<Rightarrow> string \<Rightarrow> string \<Rightarrow> step_result) \<Rightarrow>
   (DBTransaction \<Rightarrow> int \<Rightarrow> step_result) \<Rightarrow> DBTransaction \<Rightarrow> step_result" where
  "MigrateToV7 DropTable InsertIndex banner_Migrate transaction =
     (case DropTable transaction table_name of (ok1, t1) \<Rightarrow>
        if \<not> ok1 then (False, t1)
        else (case CreateTableV7 t1 of (ok2, t2) \<Rightarrow>
          if \<not> ok2 then (False, t2)
          else (case CreateIndexV7 InsertIndex t2 of (ok3, t3) \<Rightarrow>
            if \<not> ok3 then (False, t3)
            else (case banner_Migrate t3 7 of (ok4, t4) \<Rightarrow>
              if \<not> ok4 then (False, t4)
              else (True, t4)))))"

definition MigrateToV15 :: "(DBTransaction \<Rightarrow> int \<Rightarrow> step_result) \<Rightarrow> DBTransaction \<Rightarrow> step_result" where
  "MigrateToV15 banner_Migrate transaction = banner_Migrate transaction 15"

text \<open>
  \<^verbatim>\<open>Migrate\<close> takes a pointer to the transaction: \<^term>\<open>None\<close> is the null pointer. It
  returns its result and the transaction behind the pointer.
\<close>

definition Migrate ::
  "(DBTransaction \<Rightarrow> string \<Rightarrow> step_result) \<Rightarrow>
   (DBTransaction \<Rightarrow> string \<Rightarrow> string \<Rightarrow> step_result) \<Rightarrow>
   (DBTransaction \<Rightarrow> int \<Rightarrow> step_result) \<Rightarrow>
   DBTransaction option \<Rightarrow> int \<Rightarrow> bool \<times> DBTransaction option" where
  "Migrate DropTable InsertIndex banner_Migrate transaction target =
     (case transaction of
        None \<Rightarrow> (False, None)
      | Some t \<Rightarrow>
          if target = 7 then map_prod id Some (MigrateToV7 DropTable InsertIndex banner_Migrate t)
          else if target = 15 then map_prod id Some (MigrateToV15 banner_Migrate t)
          else (True, Some t))"

text \<open>
  The spec's reading of a migration: its steps run in order on the transaction, and the
  first step that fails ends it with failure.
\<close>

fun run_steps :: "(DBTransaction \<Rightarrow> step_result) list \<Rightarrow> DBTransaction \<Rightarrow> step_result" where
  "run_steps [] t = (True, t)"
| "run_steps (s # ss) t = (case s t of (ok, t') \<Rightarrow> if ok then run_steps ss t' else (False, t'))"

definition create_table_command :: DBCommand where
  "create_table_command =
     \<lparr>type = EXECUTE,
      command = ''CREATE TABLE server_publisher_info (publisher_key LONGVARCHAR PRIMARY KEY NOT NULL UNIQUE,status INTEGER DEFAULT 0 NOT NULL,excluded INTEGER DEFAULT 0 NOT NULL,address TEXT NOT NULL)'',
      bindings = [], record_bindings = []\<rparr>"

definition v7_steps ::
  "(DBTransaction \<Rightarrow> string \<Rightarrow> step_result) \<Rightarrow>
   (DBTransaction \<Rightarrow> string \<Rightarrow> string \<Rightarrow> step_result) \<Rightarrow>
   (DBTransaction \<Rightarrow> int \<Rightarrow> step_result) \<Rightarrow> (DBTransaction \<Rightarrow> step_result) list" where
  "v7_steps DropTable InsertIndex banner_Migrate =
     [\<lambda>t. DropTable t ''server_publisher_info'',
      \<lambda>t. (True, t\<lparr>commands := commands t @ [create_table_command]\<rparr>),
      \<lambda>t. InsertIndex t ''server_publisher_info'' ''publisher_key'',
      \<lambda>t. banner_Migrate t 7]"

subsection \<open>Writing the list of records\<close>

text \<open>
  \<^verbatim>\<open>InsertOrUpdate\<close> takes the record by pointer: \<^term>\<open>None\<close> is the null pointer, for
  which nothing is added to the transaction.
\<close>

definition InsertOrUpdate ::
  "DBTransaction \<Rightarrow> 'b ServerPublisherInfo option \<Rightarrow> DBTransaction" where
  "InsertOrUpdate transaction info =
     (case info of
        None \<Rightarrow> transaction
      | Some i \<Rightarrow>
          (let query = ''INSERT OR REPLACE INTO '' @ table_name @ '' '' @
                 ''(publisher_key, status, excluded, address) '' @
                 ''VALUES (?, ?, ?, ?)'';
               c = \<lparr>type = RUN, command = query, bindings = [], record_bindings = []\<rparr>;
               c = BindString c 0 (publisher_key i);
               c = BindInt c 1 (status i);
               c = BindBool c 2 (excluded i);
               c = BindString c 3 (address i)
           in push_back transaction c))"

text \<open>
  Modelled from the spec: \<^verbatim>\<open>DatabaseServerPublisherBanner::InsertOrUpdate\<close> is not in the
  source files. The spec has the banner's upsert appended to the same transaction; the
  commands it appends for a record are the parameter \<^verbatim>\<open>banner_commands\<close>.
\<close>

definition banner_InsertOrUpdate ::
  "('b ServerPublisherInfo \<Rightarrow> DBCommand list) \<Rightarrow> DBTransaction \<Rightarrow> 'b ServerPublisherInfo \<Rightarrow>
   DBTransaction" where
  "banner_InsertOrUpdate banner_commands transaction info =
     transaction\<lparr>commands := commands transaction @ banner_commands info\<rparr>"

text \<open>The loop over the list of \<^verbatim>\<open>ClearAndInsertList\<close>, on the transaction built so far.\<close>

fun insert_each ::
  "('b ServerPublisherInfo \<Rightarrow> DBCommand list) \<Rightarrow> DBTransaction \<Rightarrow>
   'b ServerPublisherInfo option list \<Rightarrow> DBTransaction" where
  "insert_each banner_commands transaction [] = transaction"
| "insert_each banner_commands transaction (None # rest) =
     insert_each banner_commands transaction rest"
| "insert_each banner_commands transaction (Some info # rest) =
     (let t1 = InsertOrUpdate transaction (Some info);
          t2 = (if banner info \<noteq> None then banner_InsertOrUpdate banner_commands t1 info else t1)
      in insert_each banner_commands t2 rest)"

definition ClearAndInsertList ::
  "(DBTransaction \<Rightarrow> DBCommandResponse option) \<Rightarrow> ('b ServerPublisherInfo \<Rightarrow> DBCommand list) \<Rightarrow>
   'b ServerPublisherInfo option list \<Rightarrow> Result effects" where
  "ClearAndInsertList ledger banner_commands list =
     (let transaction_callback = OnResultCallback;
          transaction = \<lparr>commands = []\<rparr>;
          query = ''DELETE FROM '' @ table_name;
          c = \<lparr>type = EXECUTE, command = query, bindings = [], record_bindings = []\<rparr>;
          transaction = push_back transaction c
      in if length list = 0 then RunDBTransaction ledger transaction transaction_callback
         else RunDBTransaction ledger (insert_each banner_commands transaction list)
                transaction_callback)"

text \<open>
  The spec's reading of the transaction: the delete of all rows, then for each non-null
  record in list order its insert-or-replace, followed by the banner's upsert when the
  record carries a banner.
\<close>

definition delete_all_command :: DBCommand where
  "delete_all_command =
     \<lparr>type = EXECUTE, command = ''DELETE FROM server_publisher_info'',
      bindings = [], record_bindings = []\<rparr>"

definition insert_or_replace_command :: "'b ServerPublisherInfo \<Rightarrow> DBCommand" where
  "insert_or_replace_command i =
     \<lparr>type = RUN,
      command = ''INSERT OR REPLACE INTO server_publisher_info (publisher_key, status, excluded, address) VALUES (?, ?, ?, ?)'',
      bindings = [(0, string_value (publisher_key i)), (1, int_value (status i)),
                  (2, bool_value (excluded i)), (3, string_value (address i))],
      record_bindings = []\<rparr>"

fun record_commands ::
  "('b ServerPublisherInfo \<Rightarrow> DBCommand list) \<Rightarrow> 'b ServerPublisherInfo option \<Rightarrow> DBCommand list" where
  "record_commands banner_commands None = []"
| "record_commands banner_commands (Some i) =
     insert_or_replace_command i # (case banner i of None \<Rightarrow> [] | Some b \<Rightarrow> banner_commands i)"

definition replace_all_transaction ::
  "('b ServerPublisherInfo \<Rightarrow> DBCommand list) \<Rightarrow> 'b ServerPublisherInfo option list \<Rightarrow>
   DBTransaction" where
  "replace_all_transaction banner_commands list =
     \<lparr>commands = delete_all_command # concat (map (record_commands banner_commands) list)\<rparr>"

definition result_of :: "DBCommandResponse option \<Rightarrow> Result" where
  "result_of response =
     (case response of
        None \<Rightarrow> LEDGER_ERROR
      | Some r \<Rightarrow> (case response_status r of OK \<Rightarrow> LEDGER_OK | OTHER n \<Rightarrow> LEDGER_ERROR))"

subsection \<open>Reading one record\<close>

text \<open>
  The column readers of the database utilities are outside the source files and are
  parameters of \<^verbatim>\<open>OnGetRecord\<close>, as is the empty banner that
  \<^verbatim>\<open>PublisherBanner::New\<close> makes. \<^verbatim>\<open>OnGetRecord\<close> gives the calls of the callback, in
  order; a null record is \<^term>\<open>None\<close>.
\<close>

definition OnGetRecord ::
  "(DBRecord \<Rightarrow> nat \<Rightarrow> int) \<Rightarrow> (DBRecord \<Rightarrow> nat \<Rightarrow> bool) \<Rightarrow> (DBRecord \<Rightarrow> nat \<Rightarrow> string) \<Rightarrow>
   DBCommandResponse option \<Rightarrow> string \<Rightarrow> 'b \<Rightarrow> 'b ServerPublisherInfo option effects" where
  "OnGetRecord GetIntColumn GetBoolColumn GetStringColumn response key b =
     (case response of
        None \<Rightarrow> run_callback None
      | Some r \<Rightarrow>
          if response_status r \<noteq> OK then run_callback None
          else if length (records r) \<noteq> 1 then run_callback None
          else
            (let row = records r ! 0;
                 info = \<lparr>publisher_key = key,
                         status = GetIntColumn row 0,
                         excluded = GetBoolColumn row 1,
                         address = GetStringColumn row 2,
                         banner = Some b\<rparr>
             in run_callback (Some info)))"

definition OnGetRecordBanner ::
  "(DBTransaction \<Rightarrow> DBCommandResponse option) \<Rightarrow>
   (DBRecord \<Rightarrow> nat \<Rightarrow> int) \<Rightarrow> (DBRecord \<Rightarrow> nat \<Rightarrow> bool) \<Rightarrow> (DBRecord \<Rightarrow> nat \<Rightarrow> string) \<Rightarrow>
   'b \<Rightarrow> 'b option \<Rightarrow> string \<Rightarrow> 'b ServerPublisherInfo option effects" where
  "OnGetRecordBanner ledger GetIntColumn GetBoolColumn GetStringColumn PublisherBanner_New
     b key =
     (let transaction = \<lparr>commands = []\<rparr>;
          query = ''SELECT status, excluded, address '' @
                  ''FROM '' @ table_name @ '' WHERE publisher_key=?'';
          c = \<lparr>type = READ, command = query, bindings = [], record_bindings = []\<rparr>;
          c = BindString c 0 key;
          c = c\<lparr>record_bindings := [INT_TYPE, BOOL_TYPE, STRING_TYPE]\<rparr>;
          transaction = push_back transaction c;
          b = (case b of None \<Rightarrow> PublisherBanner_New | Some b' \<Rightarrow> b')
      in RunDBTransaction ledger transaction
           (\<lambda>response. OnGetRecord GetIntColumn GetBoolColumn GetStringColumn response key b))"

text \<open>
  \<^verbatim>\<open>GetRecord\<close> asks the banner store first. The store's lookup is outside the source
  files: the parameter \<^verbatim>\<open>banner_GetRecord\<close> is the banner it hands to its callback for a
  key (\<^term>\<open>None\<close> for a null banner).
\<close>

definition GetRecord ::
  "(DBTransaction \<Rightarrow> DBCommandResponse option) \<Rightarrow>
   (DBRecord \<Rightarrow> nat \<Rightarrow> int) \<Rightarrow> (DBRecord \<Rightarrow> nat \<Rightarrow> bool) \<Rightarrow> (DBRecord \<Rightarrow> nat \<Rightarrow> string) \<Rightarrow>
   'b \<Rightarrow> (string \<Rightarrow> 'b option) \<Rightarrow> string \<Rightarrow> 'b ServerPublisherInfo option effects" where
  "GetRecord ledger GetIntColumn GetBoolColumn GetStringColumn PublisherBanner_New
     banner_GetRecord key =
     OnGetRecordBanner ledger GetIntColumn GetBoolColumn GetStringColumn PublisherBanner_New
       (banner_GetRecord key) key"

section \<open>The Binance service\<close>

subsection \<open>SHA-256 and Base64\<close>

text \<open>
  \<^verbatim>\<open>crypto::SHA256HashString\<close> and \<^verbatim>\<open>base::Base64Encode\<close> belong to the browser's
  libraries. They are written out here after their standards, FIPS 180-4 and RFC 4648, so
  that the code challenge can be computed. Words are 32 bits wide, bytes are numbers
  below 256.
\<close>

type_synonym u32 = "32 word"

definition rotr :: "nat \<Rightarrow> u32 \<Rightarrow> u32" where
  "rotr n x = drop_bit n x OR push_bit (32 - n) x"

definition Ch :: "u32 \<Rightarrow> u32 \<Rightarrow> u32 \<Rightarrow> u32" where
  "Ch x y z = (x AND y) XOR (NOT x AND z)"

definition Maj :: "u32 \<Rightarrow> u32 \<Rightarrow> u32 \<Rightarrow> u32" where
  "Maj x y z = (x AND y) XOR (x AND z) XOR (y AND z)"

definition Sigma0 :: "u32 \<Rightarrow> u32" where
  "Sigma0 x = rotr 2 x XOR rotr 13 x XOR rotr 22 x"

definition Sigma1 :: "u32 \<Rightarrow> u32" where
  "Sigma1 x = rotr 6 x XOR rotr 11 x XOR rotr 25 x"

definition sigma0 :: "u32 \<Rightarrow> u32" where
  "sigma0 x = rotr 7 x XOR rotr 18 x XOR drop_bit 3 x"

definition sigma1 :: "u32 \<Rightarrow> u32" where
  "sigma1 x = rotr 17 x XOR rotr 19 x XOR drop_bit 10 x"

text \<open>
  The sixty-four round constants and the initial hash value of the standard, which prints
  them in hexadecimal (the first is \<^verbatim>\<open>428a2f98\<close>); they are decimal here.
\<close>

definition K256 :: "u32 list" where
  "K256 =
    [1116352408, 1899447441, 3049323471, 3921009573, 961987163, 1508970993,
     2453635748, 2870763221, 3624381080, 310598401, 607225278, 1426881987,
     1925078388, 2162078206, 2614888103, 3248222580, 3835390401, 4022224774,
     264347078, 604807628, 770255983, 1249150122, 1555081692, 1996064986,
     2554220882, 2821834349, 2952996808, 3210313671, 3336571891, 3584528711,
     113926993, 338241895, 666307205, 773529912, 1294757372, 1396182291,
     1695183700, 1986661051, 2177026350, 2456956037, 2730485921, 2820302411,
     3259730800, 3345764771, 3516065817, 3600352804, 4094571909, 275423344,
     430227734, 506948616, 659060556, 883997877, 958139571, 1322822218,
     1537002063, 1747873779, 1955562222, 2024104815, 2227730452, 2361852424,
     2428436474, 2756734187, 3204031479, 3329325298]"

type_synonym sha_state = "u32 \<times> u32 \<times> u32 \<times> u32 \<times> u32 \<times> u32 \<times> u32 \<times> u32"

definition H256 :: sha_state where
  "H256 = (1779033703, 3144134277, 1013904242, 2773480762,
           1359893119, 2600822924, 528734635, 1541459225)"

text \<open>
  The message schedule, newest word first: from the sixteen words of a block (reversed),
  \<^verbatim>\<open>schedule 48\<close> gives all sixty-four.
\<close>

fun schedule :: "nat \<Rightarrow> u32 list \<Rightarrow> u32 list" where
  "schedule 0 ws = ws"
| "schedule (Suc n) ws =
     schedule n ((sigma1 (ws ! 1) + ws ! 6 + sigma0 (ws ! 14) + ws ! 15) # ws)"

definition round1 :: "u32 \<Rightarrow> u32 \<Rightarrow> sha_state \<Rightarrow> sha_state" where
  "round1 k w s =
     (case s of (a, b, c, d, e, f, g, h) \<Rightarrow>
        (let t1 = h + Sigma1 e + Ch e f g + k + w;
             t2 = Sigma0 a + Maj a b c
         in (t1 + t2, a, b, c, d + t1, e, f, g)))"

fun rounds :: "u32 list \<Rightarrow> u32 list \<Rightarrow> sha_state \<Rightarrow> sha_state" where
  "rounds (k # ks) (w # ws) s = rounds ks ws (round1 k w s)"
| "rounds _ _ s = s"

definition add_state :: "sha_state \<Rightarrow> sha_state \<Rightarrow> sha_state" where
  "add_state s t =
     (case s of (a, b, c, d, e, f, g, h) \<Rightarrow>
        (case t of (a', b', c', d', e', f', g', h') \<Rightarrow>
           (a + a', b + b', c + c', d + d', e + e', f + f', g + g', h + h')))"

definition compress :: "sha_state \<Rightarrow> u32 list \<Rightarrow> sha_state" where
  "compress s block = add_state s (rounds K256 (rev (schedule 48 (rev block))) s)"

definition be32 :: "nat list \<Rightarrow> u32" where
  "be32 bs = of_nat (foldl (\<lambda>acc b. acc * 256 + b) 0 bs)"

fun words_of :: "nat list \<Rightarrow> u32 list" where
  "words_of (a # b # c # d # bs) = be32 [a, b, c, d] # words_of bs"
| "words_of _ = []"

fun blocks :: "nat \<Rightarrow> sha_state \<Rightarrow> nat list \<Rightarrow> sha_state" where
  "blocks 0 s bs = s"
| "blocks (Suc n) s bs = blocks n (compress s (words_of (take 64 bs))) (drop 64 bs)"

text \<open>The bytes of a 32-bit and of a 64-bit number, most significant first.\<close>

definition be32_bytes :: "nat \<Rightarrow> nat list" where
  "be32_bytes x = [x div 16777216 mod 256, x div 65536 mod 256, x div 256 mod 256, x mod 256]"

definition be64_bytes :: "nat \<Rightarrow> nat list" where
  "be64_bytes x = be32_bytes (x div 4294967296) @ be32_bytes (x mod 4294967296)"

definition sha_pad :: "nat list \<Rightarrow> nat list" where
  "sha_pad bs =
     bs @ [128] @ replicate ((119 - length bs mod 64) mod 64) 0 @ be64_bytes (8 * length bs)"

definition digest_bytes :: "sha_state \<Rightarrow> nat list" where
  "digest_bytes s =
     (case s of (a, b, c, d, e, f, g, h) \<Rightarrow>
        concat (map (\<lambda>w. be32_bytes (unat w)) [a, b, c, d, e, f, g, h]))"

definition SHA256HashString :: "string \<Rightarrow> string" where
  "SHA256HashString str =
     (let p = sha_pad (map of_char str)
      in map char_of (digest_bytes (blocks (length p div 64) H256 p)))"

definition kBase64Alphabet :: string where
  "kBase64Alphabet = ''ABCDEFGHIJKLMNOPQRSTUVWXYZabcdefghijklmnopqrstuvwxyz0123456789+/''"

definition b64 :: "nat \<Rightarrow> char" where
  "b64 n = kBase64Alphabet ! n"

fun encode_bytes :: "nat list \<Rightarrow> string" where
  "encode_bytes (a # b # c # bs) =
     [b64 (a div 4), b64 (a mod 4 * 16 + b div 16), b64 (b mod 16 * 4 + c div 64), b64 (c mod 64)]
     @ encode_bytes bs"
| "encode_bytes [a, b] =
     [b64 (a div 4), b64 (a mod 4 * 16 + b div 16), b64 (b mod 16 * 4), CHR ''='']"
| "encode_bytes [a] = [b64 (a div 4), b64 (a mod 4 * 16), CHR ''='', CHR ''='']"
| "encode_bytes [] = []"

definition Base64Encode :: "string \<Rightarrow> string" where
  "Base64Encode input = encode_bytes (map of_char input)"

subsection \<open>The code challenge\<close>

text \<open>
  \<^verbatim>\<open>std::replace\<close> over a whole string, and \<^verbatim>\<open>std::find_if\<close> as the offset of the first
  element that satisfies the predicate (the length when none does).
\<close>

primrec replace :: "string \<Rightarrow> char \<Rightarrow> char \<Rightarrow> string" where
  "replace [] old_value new_value = []"
| "replace (c # cs) old_value new_value =
     (if c = old_value then new_value else c) # replace cs old_value new_value"

primrec find_if :: "('a \<Rightarrow> bool) \<Rightarrow> 'a list \<Rightarrow> nat" where
  "find_if p [] = 0"
| "find_if p (x # xs) = (if p x then 0 else Suc (find_if p xs))"

text \<open>
  \<^verbatim>\<open>find_if\<close> runs over the reverse iterators of the string; a reverse iterator at offset
  \<^verbatim>\<open>k\<close> has its \<^verbatim>\<open>base()\<close> at offset \<^verbatim>\<open>size - k\<close>, and \<^verbatim>\<open>erase\<close> from an
  offset to the end keeps the characters before the offset.
\<close>

definition GetCodeChallenge :: "string \<Rightarrow> string" where
  "GetCodeChallenge code_verifier =
     (let raw = SHA256HashString code_verifier;
          code_challenge = Base64Encode raw;
          code_challenge = replace code_challenge CHR ''+'' CHR ''-'';
          code_challenge = replace code_challenge CHR ''/'' CHR ''_'';
          base = length code_challenge - find_if (\<lambda>ch. ch \<noteq> CHR ''='') (rev code_challenge)
      in take base code_challenge)"

text \<open>
  The spec's reading: the Base64 text with \<^verbatim>\<open>+\<close> and \<^verbatim>\<open>/\<close> exchanged for their URL-safe
  characters and every trailing \<^verbatim>\<open>=\<close> removed.
\<close>

definition url_safe :: "char \<Rightarrow> char" where
  "url_safe c = (if c = CHR ''+'' then CHR ''-'' else if c = CHR ''/'' then CHR ''_'' else c)"

definition strip_padding :: "string \<Rightarrow> string" where
  "strip_padding s = rev (dropWhile (\<lambda>c. c = CHR ''='') (rev s))"

definition base64url_nopad :: "string \<Rightarrow> string" where
  "base64url_nopad input = strip_padding (map url_safe (Base64Encode input))"

subsection \<open>Tokens in memory and in the preferences\<close>

text \<open>
  The fields of the service that the token operations touch, named as in the source
  without the trailing underscore, and the two string preferences, read and written
  through the preference service under their names.
\<close>

datatype pref_name = kBinanceAccessToken | kBinanceRefreshToken

record BinanceService =
  access_token :: string
  refresh_token :: string
  code_challenge :: string
  code_verifier :: string
  prefs :: "pref_name \<Rightarrow> string"

text \<open>
  \<^verbatim>\<open>OSCrypt::EncryptString\<close> is the host's: the parameter gives the ciphertext, or
  \<^term>\<open>None\<close> when it returns false. Its output string is a local of
  \<^verbatim>\<open>SetAccessTokens\<close>, read after success only.
\<close>

definition SetAccessTokens ::
  "(string \<Rightarrow> string option) \<Rightarrow> BinanceService \<Rightarrow> string \<Rightarrow> string \<Rightarrow> bool \<times> BinanceService" where
  "SetAccessTokens EncryptString s access refresh =
     (let s = s\<lparr>access_token := access\<rparr>;
          s = s\<lparr>refresh_token := refresh\<rparr>
      in case EncryptString access of
           None \<Rightarrow> (False, s)
         | Some encrypted_access_token \<Rightarrow>
             (case EncryptString refresh of
                None \<Rightarrow> (False, s)
              | Some encrypted_refresh_token \<Rightarrow>
                  (let encoded_encrypted_access_token = Base64Encode encrypted_access_token;
                       encoded_encrypted_refresh_token = Base64Encode encrypted_refresh_token;
                       s = s\<lparr>prefs := (prefs s)(kBinanceAccessToken := encoded_encrypted_access_token)\<rparr>;
                       s = s\<lparr>prefs := (prefs s)(kBinanceRefreshToken := encoded_encrypted_refresh_token)\<rparr>
                   in (True, s))))"

text \<open>
  \<^verbatim>\<open>base::Base64Decode\<close> writes a local: the parameter gives the decoded string, or
  \<^term>\<open>None\<close> when it returns false. \<^verbatim>\<open>OSCrypt::DecryptString\<close> is handed the token
  field itself as its output: the parameter takes the ciphertext and the field's content,
  and gives its result and the field's content afterwards.
\<close>

definition LoadTokensFromPrefs ::
  "(string \<Rightarrow> string option) \<Rightarrow> (string \<Rightarrow> string \<Rightarrow> bool \<times> string) \<Rightarrow> BinanceService \<Rightarrow>
   bool \<times> BinanceService" where
  "LoadTokensFromPrefs Base64Decode DecryptString s =
     (let encoded_encrypted_access_token = prefs s kBinanceAccessToken;
          encoded_encrypted_refresh_token = prefs s kBinanceRefreshToken
      in case Base64Decode encoded_encrypted_access_token of
           None \<Rightarrow> (False, s)
         | Some encrypted_access_token \<Rightarrow>
             (case Base64Decode encoded_encrypted_refresh_token of
                None \<Rightarrow> (False, s)
              | Some encrypted_refresh_token \<Rightarrow>
                  (case DecryptString encrypted_access_token (access_token s) of
                     (ok_access, out_access) \<Rightarrow>
                       (let s = s\<lparr>access_token := out_access\<rparr>
                        in if \<not> ok_access then (False, s)
                           else (case DecryptString encrypted_refresh_token (refresh_token s) of
                                   (ok_refresh, out_refresh) \<Rightarrow>
                                     (let s = s\<lparr>refresh_token := out_refresh\<rparr>
                                      in if \<not> ok_refresh then (False, s) else (True, s)))))))"

text \<open>
  The constructor: every string field starts empty, then the tokens are loaded and the
  result of the load is dropped.
\<close>

definition BinanceService_new ::
  "(string \<Rightarrow> string option) \<Rightarrow> (string \<Rightarrow> string \<Rightarrow> bool \<times> string) \<Rightarrow> (pref_name \<Rightarrow> string) \<Rightarrow>
   BinanceService" where
  "BinanceService_new Base64Decode DecryptString stored =
     snd (LoadTokensFromPrefs Base64Decode DecryptString
       \<lparr>access_token = [], refresh_token = [], code_challenge = [], code_verifier = [],
        prefs = stored\<rparr>)"

subsection \<open>Completion handlers of the requests\<close>

text \<open>
  A handler receives the HTTP status (the argument \<^verbatim>\<open>status\<close> of the source, here
  \<^verbatim>\<open>http_status\<close>) and the body of the response (the headers are passed too and never
  read). What it does is recorded: the bodies it hands to the JSON parser
  and the arguments of each run of the callback, in order. The functions of
  \<^verbatim>\<open>BinanceJSONParser\<close> are outside the source files: each is a parameter that takes the
  body and the current content of its output arguments and gives their content
  afterwards; the parser's own result is never read by a handler.
\<close>

record 'a handler_run =
  parsed :: "string list"
  callback_args :: "'a list"

definition OnGetAccountBalances ::
  "(string \<Rightarrow> (string \<rightharpoonup> string) \<Rightarrow> (string \<rightharpoonup> string)) \<Rightarrow> int \<Rightarrow> string \<Rightarrow>
   ((string \<rightharpoonup> string) \<times> bool) handler_run" where
  "OnGetAccountBalances GetAccountBalancesFromJSON http_status body =
     (let balances = Map.empty;
          success = (http_status \<ge> 200 \<and> http_status \<le> 299)
      in if success
         then \<lparr>parsed = [body],
               callback_args = [(GetAccountBalancesFromJSON body balances, success)]\<rparr>
         else \<lparr>parsed = [], callback_args = [(balances, success)]\<rparr>)"

definition OnGetConvertQuote ::
  "(string \<Rightarrow> string \<times> string \<times> string \<times> string \<Rightarrow> string \<times> string \<times> string \<times> string) \<Rightarrow>
   int \<Rightarrow> string \<Rightarrow> (string \<times> string \<times> string \<times> string) handler_run" where
  "OnGetConvertQuote GetQuoteInfoFromJSON http_status body =
     (let quote_id = []; quote_price = []; total_fee = []; total_amount = []
      in if http_status \<ge> 200 \<and> http_status \<le> 299
         then \<lparr>parsed = [body],
               callback_args =
                 [GetQuoteInfoFromJSON body (quote_id, quote_price, total_fee, total_amount)]\<rparr>
         else \<lparr>parsed = [],
               callback_args = [(quote_id, quote_price, total_fee, total_amount)]\<rparr>)"

definition OnGetTickerPrice ::
  "(string \<Rightarrow> string \<Rightarrow> string) \<Rightarrow> int \<Rightarrow> string \<Rightarrow> string handler_run" where
  "OnGetTickerPrice GetTickerPriceFromJSON http_status body =
     (let symbol_pair_price = ''0.00''
      in if http_status \<ge> 200 \<and> http_status \<le> 299
         then \<lparr>parsed = [body],
               callback_args = [GetTickerPriceFromJSON body symbol_pair_price]\<rparr>
         else \<lparr>parsed = [], callback_args = [symbol_pair_price]\<rparr>)"

definition OnGetTickerVolume ::
  "(string \<Rightarrow> string \<Rightarrow> string) \<Rightarrow> int \<Rightarrow> string \<Rightarrow> string handler_run" where
  "OnGetTickerVolume GetTickerVolumeFromJSON http_status body =
     (let symbol_pair_volume = ''0''
      in if http_status \<ge> 200 \<and> http_status \<le> 299
         then \<lparr>parsed = [body],
               callback_args = [GetTickerVolumeFromJSON body symbol_pair_volume]\<rparr>
         else \<lparr>parsed = [], callback_args = [symbol_pair_volume]\<rparr>)"

definition OnGetDepositInfo ::
  "(string \<Rightarrow> string \<times> string \<Rightarrow> string \<times> string) \<Rightarrow> int \<Rightarrow> string \<Rightarrow>
   (string \<times> string \<times> bool) handler_run" where
  "OnGetDepositInfo GetDepositInfoFromJSON http_status body =
     (let deposit_address = []; deposit_url = [];
          success = (http_status \<ge> 200 \<and> http_status \<le> 299)
      in if success
         then (case GetDepositInfoFromJSON body (deposit_address, deposit_url) of
                 (deposit_address, deposit_url) \<Rightarrow>
                   \<lparr>parsed = [body], callback_args = [(deposit_address, deposit_url, success)]\<rparr>)
         else \<lparr>parsed = [], callback_args = [(deposit_address, deposit_url, success)]\<rparr>)"

definition OnConfirmConvert ::
  "(string \<Rightarrow> string \<times> bool \<Rightarrow> string \<times> bool) \<Rightarrow> int \<Rightarrow> string \<Rightarrow> (bool \<times> string) handler_run" where
  "OnConfirmConvert GetConfirmStatusFromJSON http_status body =
     (let success_status = False; error_message = []
      in if http_status \<ge> 200 \<and> http_status \<le> 299
         then (case GetConfirmStatusFromJSON body (error_message, success_status) of
                 (error_message, success_status) \<Rightarrow>
                   \<lparr>parsed = [body], callback_args = [(success_status, error_message)]\<rparr>)
         else \<lparr>parsed = [], callback_args = [(success_status, error_message)]\<rparr>)"

definition OnGetConvertAssets ::
  "(string \<Rightarrow> (string \<rightharpoonup> string list) \<Rightarrow> (string \<rightharpoonup> string list)) \<Rightarrow> int \<Rightarrow> string \<Rightarrow>
   (string \<rightharpoonup> string list) handler_run" where
  "OnGetConvertAssets GetConvertAssetsFromJSON http_status body =
     (let assets = Map.empty
      in if http_status \<ge> 200 \<and> http_status \<le> 299
         then \<lparr>parsed = [body], callback_args = [GetConvertAssetsFromJSON body assets]\<rparr>
         else \<lparr>parsed = [], callback_args = [assets]\<rparr>)"

text \<open>
  The revoke handler changes the service, so it also gives the state afterwards. It drops
  the result of \<^verbatim>\<open>SetAccessTokens\<close>.
\<close>

definition OnRevokeToken ::
  "(string \<Rightarrow> bool \<Rightarrow> bool) \<Rightarrow> (string \<Rightarrow> string option) \<Rightarrow> BinanceService \<Rightarrow>
   int \<Rightarrow> string \<Rightarrow> BinanceService \<times> bool handler_run" where
  "OnRevokeToken RevokeTokenFromJSON EncryptString s http_status body =
     (let success = False;
          ran = (http_status \<ge> 200 \<and> http_status \<le> 299);
          success = (if ran then RevokeTokenFromJSON body success else success);
          s = (if success
               then (let s = s\<lparr>code_challenge := []\<rparr>;
                         s = s\<lparr>code_verifier := []\<rparr>
                     in snd (SetAccessTokens EncryptString s [] []))
               else s)
      in (s, \<lparr>parsed = (if ran then [body] else []), callback_args = [success]\<rparr>))"

subsection \<open>Hosts for the examples\<close>

text \<open>
  Concrete collaborators for the examples of the token operations. The decoder knows the
  Base64 texts of \<^verbatim>\<open>abc\<close> and \<^verbatim>\<open>xyz\<close> and fails on every other text; the decryption
  knows the ciphertext \<^verbatim>\<open>abc\<close>, of the plaintext \<^verbatim>\<open>token\<close>, and fails on every other
  ciphertext, leaving its output as it was. One encryption puts a version prefix before the
  plaintext, the other fails on every plaintext. The parser of the revoke response reports
  success for every body.
\<close>

definition example_Base64Decode :: "string \<Rightarrow> string option" where
  "example_Base64Decode e =
     (if e = ''YWJj'' then Some ''abc'' else if e = ''eHl6'' then Some ''xyz'' else None)"

definition example_DecryptString :: "string \<Rightarrow> string \<Rightarrow> bool \<times> string" where
  "example_DecryptString c out = (if c = ''abc'' then (True, ''token'') else (False, out))"

definition prefix_EncryptString :: "string \<Rightarrow> string option" where
  "prefix_EncryptString p = Some (''v10'' @ p)"

definition failing_EncryptString :: "string \<Rightarrow> string option" where
  "failing_EncryptString p = None"

definition accepting_RevokeTokenFromJSON :: "string \<Rightarrow> bool \<Rightarrow> bool" where
  "accepting_RevokeTokenFromJSON body success = True"

text \<open>
  Stored preferences whose access token decodes to \<^verbatim>\<open>abc\<close> and whose refresh token
  decodes to \<^verbatim>\<open>xyz\<close>; a service before the load, with these preferences; and a service
  that holds tokens in memory and in its preferences.
\<close>

definition example_prefs :: "pref_name \<Rightarrow> string" where
  "example_prefs n = (case n of kBinanceAccessToken \<Rightarrow> ''YWJj'' | kBinanceRefreshToken \<Rightarrow> ''eHl6'')"

definition unloaded_service :: BinanceService where
  "unloaded_service =
     \<lparr>access_token = [], refresh_token = [], code_challenge = [], code_verifier = [],
      prefs = example_prefs\<rparr>"

definition connected_service :: BinanceService where
  "connected_service =
     \<lparr>access_token = ''a'', refresh_token = ''r'', code_challenge = ''c'', code_verifier = ''v'',
      prefs = (\<lambda>n. ''stored'')\<rparr>"

subsection \<open>A test vector\<close>

text \<open>
  The verifier \<^verbatim>\<open>abc\<close>: its padded message, the sixteen words of its only block, the
  sixty-four words of the message schedule and the bytes of its digest.
\<close>

definition abc_padded :: "nat list" where
  "abc_padded =
    [97, 98, 99, 128, 0, 0, 0, 0, 0, 0, 0, 0, 0, 0, 0, 0, 0, 0, 0, 0, 0, 0, 0, 0, 0, 0, 0,
    0, 0, 0, 0, 0, 0, 0, 0, 0, 0, 0, 0, 0, 0, 0, 0, 0, 0, 0, 0, 0, 0, 0, 0, 0, 0, 0, 0, 0,
    0, 0, 0, 0, 0, 0, 0, 24]"

definition abc_block :: "u32 list" where
  "abc_block = [1633837952, 0, 0, 0, 0, 0, 0, 0, 0, 0, 0, 0, 0, 0, 0, 24]"

definition abc_schedule :: "u32 list" where
  "abc_schedule =
    [1633837952, 0, 0, 0, 0, 0, 0, 0, 0, 0, 0, 0, 0, 0, 0, 24, 1633837952, 983040,
    2108187653, 1610613702, 1050508152, 25426944, 316456923, 3806512014, 3357629466,
    3073800610, 3854317833, 845560923, 2636160359, 3968280267, 1881225380, 3552024379,
    2482346367, 996719219, 2952069057, 4043988066, 176896406, 1924104970, 2483675966,
    610538786, 2672279444, 4037431130, 1042573945, 657669027, 206005234, 2215296807,
    2049510749, 106709978, 4215179723, 3430291419, 3118885940, 2845390439, 2226839261,
    3256115900, 344409900, 2987358873, 4015503821, 3957764664, 2682456414, 2025622859,
    2755645205, 1720397816, 4004225740, 313650667]"

definition abc_digest_bytes :: "nat list" where
  "abc_digest_bytes =
    [186, 120, 22, 191, 143, 1, 207, 234, 65, 65, 64, 222, 93, 174, 34, 35, 176, 3, 97,
    163, 150, 23, 122, 156, 180, 16, 255, 97, 242, 0, 21, 173]"

section \<open>Properties of the server publisher info table\<close>

subsection \<open>Migration dispatch\<close>

lemma MigrateToV7_steps:
  "MigrateToV7 DropTable InsertIndex banner_Migrate t =
   run_steps (v7_steps DropTable InsertIndex banner_Migrate) t"
  by (simp add: MigrateToV7_def v7_steps_def CreateTableV7_def CreateIndexV7_def push_back_def
      create_table_command_def table_name_def Let_def split: prod.splits)

lemma Migrate_null:
  "Migrate DropTable InsertIndex banner_Migrate None target = (False, None)"
  by (simp add: Migrate_def)

text \<open>
  C8. \<^verbatim>\<open>Migrate\<close> dispatches on the exact target version of a transaction. Target 7
  runs, in order, the drop of the table, the creation of the table, the creation of its
  index and the banner store's migration to version 7, and returns false at the first of
  them that fails; target 15 is the banner store's migration to version 15 alone; every
  other target leaves the transaction as it is and returns true.
\<close>

theorem Migrate_dispatch:
  "Migrate DropTable InsertIndex banner_Migrate (Some t) 7 =
     map_prod id Some (run_steps (v7_steps DropTable InsertIndex banner_Migrate) t)
   \<and> Migrate DropTable InsertIndex banner_Migrate (Some t) 15 =
     map_prod id Some (banner_Migrate t 15)
   \<and> (target \<noteq> 7 \<and> target \<noteq> 15 \<longrightarrow>
        Migrate DropTable InsertIndex banner_Migrate (Some t) target = (True, Some t))"
  by (simp add: Migrate_def MigrateToV7_steps MigrateToV15_def)

theorem Migrate_dispatch_witness:
  "(3::int) \<noteq> 7 \<and> (3::int) \<noteq> 15
   \<and> Migrate (\<lambda>t n. (True, t)) (\<lambda>t n c. (True, t)) (\<lambda>t v. (v = 15, t))
        (Some \<lparr>commands = []\<rparr>) 3 = (True, Some \<lparr>commands = []\<rparr>)
   \<and> Migrate (\<lambda>t n. (True, t)) (\<lambda>t n c. (True, t)) (\<lambda>t v. (v = 15, t))
        (Some \<lparr>commands = []\<rparr>) 7 = (False, Some \<lparr>commands = [create_table_command]\<rparr>)
   \<and> Migrate (\<lambda>t n. (True, t)) (\<lambda>t n c. (True, t)) (\<lambda>t v. (v = 15, t))
        (Some \<lparr>commands = []\<rparr>) 15 = (True, Some \<lparr>commands = []\<rparr>)"
  using Migrate_dispatch [of "\<lambda>t n. (True, t)" "\<lambda>t n c. (True, t)" "\<lambda>t v. (v = 15, t)"
      "\<lparr>commands = []\<rparr>" 3]
  by (simp add: v7_steps_def)

subsection \<open>Replacing the list of records\<close>

lemma insert_each_commands:
  "insert_each bc t list = t\<lparr>commands := commands t @ concat (map (record_commands bc) list)\<rparr>"
proof (induction list arbitrary: t)
  case Nil
  show ?case by simp
next
  case (Cons x xs)
  show ?case
  proof (cases x)
    case None
    then show ?thesis by (simp add: Cons.IH)
  next
    case (Some i)
    then show ?thesis
      by (cases "banner i")
        (simp_all add: Cons.IH InsertOrUpdate_def banner_InsertOrUpdate_def push_back_def
          BindString_def BindInt_def BindBool_def insert_or_replace_command_def table_name_def
          Let_def)
  qed
qed

lemma OnResultCallback_result:
  "OnResultCallback response = \<lparr>transactions_run = [], callback_runs = [result_of response]\<rparr>"
  by (simp add: OnResultCallback_def result_of_def run_callback_def
      split: option.splits Status.splits)

text \<open>
  C1. For every list, \<^verbatim>\<open>ClearAndInsertList\<close> hands the ledger exactly one transaction and
  runs the callback exactly once, with the result of that transaction. The transaction
  starts with the delete of all rows; after it come, for each non-null record in list
  order, the record's insert-or-replace and, when the record carries a banner, the
  commands of the banner's upsert. For the empty list the transaction is the delete alone.
\<close>

theorem ClearAndInsertList_one_transaction:
  "ClearAndInsertList ledger bc list =
     \<lparr>transactions_run = [replace_all_transaction bc list],
      callback_runs = [result_of (ledger (replace_all_transaction bc list))]\<rparr>
   \<and> ClearAndInsertList ledger bc [] =
     \<lparr>transactions_run = [\<lparr>commands = [delete_all_command]\<rparr>],
      callback_runs = [result_of (ledger \<lparr>commands = [delete_all_command]\<rparr>)]\<rparr>"
  by (simp add: ClearAndInsertList_def RunDBTransaction_def OnResultCallback_result
      insert_each_commands replace_all_transaction_def push_back_def delete_all_command_def
      table_name_def Let_def)

theorem ClearAndInsertList_one_transaction_witness:
  "ClearAndInsertList (\<lambda>t. Some \<lparr>response_status = OK, records = []\<rparr>)
     (\<lambda>i. [\<lparr>type = RUN, command = ''INSERT OR REPLACE INTO server_publisher_banner'',
            bindings = [(0, string_value (publisher_key i))], record_bindings = []\<rparr>])
     [Some \<lparr>publisher_key = ''a.com'', status = 2, excluded = False, address = ''addr-a'',
            banner = Some ''title''\<rparr>,
      None,
      Some \<lparr>publisher_key = ''b.org'', status = 0, excluded = True, address = ''addr-b'',
            banner = None\<rparr>]
   = \<lparr>transactions_run =
        [\<lparr>commands =
           [\<lparr>type = EXECUTE, command = ''DELETE FROM server_publisher_info'', bindings = [],
              record_bindings = []\<rparr>,
            \<lparr>type = RUN,
              command = ''INSERT OR REPLACE INTO server_publisher_info (publisher_key, status, excluded, address) VALUES (?, ?, ?, ?)'',
              bindings = [(0, string_value ''a.com''), (1, int_value 2), (2, bool_value False),
                          (3, string_value ''addr-a'')],
              record_bindings = []\<rparr>,
            \<lparr>type = RUN, command = ''INSERT OR REPLACE INTO server_publisher_banner'',
              bindings = [(0, string_value ''a.com'')], record_bindings = []\<rparr>,
            \<lparr>type = RUN,
              command = ''INSERT OR REPLACE INTO server_publisher_info (publisher_key, status, excluded, address) VALUES (?, ?, ?, ?)'',
              bindings = [(0, string_value ''b.org''), (1, int_value 0), (2, bool_value True),
                          (3, string_value ''addr-b'')],
              record_bindings = []\<rparr>]\<rparr>],
      callback_runs = [LEDGER_OK]\<rparr>"
  using ClearAndInsertList_one_transaction
    [of "\<lambda>t. Some \<lparr>response_status = OK, records = []\<rparr>"
        "\<lambda>i. [\<lparr>type = RUN, command = ''INSERT OR REPLACE INTO server_publisher_banner'',
            bindings = [(0, string_value (publisher_key i))], record_bindings = []\<rparr>]"
        "[Some \<lparr>publisher_key = ''a.com'', status = 2, excluded = False, address = ''addr-a'',
            banner = Some ''title''\<rparr>,
          None,
          Some \<lparr>publisher_key = ''b.org'', status = 0, excluded = True, address = ''addr-b'',
            banner = None\<rparr>]"]
  by (simp add: replace_all_transaction_def delete_all_command_def insert_or_replace_command_def
      result_of_def)

subsection \<open>Reading one record\<close>

text \<open>
  C3. \<^verbatim>\<open>OnGetRecord\<close> runs the callback once with a null record when the response is
  missing, when its status is not OK, and when the number of rows is not one. When the
  status is OK and there is exactly one row, it runs the callback once with the record
  made of the queried key, the row's status, excluded and address columns, and the banner.
  A record is handed to the callback in that last case only.
\<close>

theorem OnGetRecord_absent_or_composed:
  "(response = None \<longrightarrow>
      OnGetRecord gi gb gs response key b = \<lparr>transactions_run = [], callback_runs = [None]\<rparr>)
   \<and> (response = Some r \<and> response_status r \<noteq> OK \<longrightarrow>
      OnGetRecord gi gb gs response key b = \<lparr>transactions_run = [], callback_runs = [None]\<rparr>)
   \<and> (response = Some r \<and> length (records r) \<noteq> 1 \<longrightarrow>
      OnGetRecord gi gb gs response key b = \<lparr>transactions_run = [], callback_runs = [None]\<rparr>)
   \<and> (response = Some r \<and> response_status r = OK \<and> records r = [row] \<longrightarrow>
      OnGetRecord gi gb gs response key b =
        \<lparr>transactions_run = [],
         callback_runs = [Some \<lparr>publisher_key = key, status = gi row 0, excluded = gb row 1,
                                address = gs row 2, banner = Some b\<rparr>]\<rparr>)
   \<and> (Some info \<in> set (callback_runs (OnGetRecord gi gb gs response key b)) \<longrightarrow>
      (\<exists>r' row'. response = Some r' \<and> response_status r' = OK \<and> records r' = [row']))"
  by (auto simp add: OnGetRecord_def run_callback_def Let_def length_Suc_conv
      split: option.splits if_splits)

theorem OnGetRecord_absent_or_composed_witness:
  "OnGetRecord (\<lambda>row i. case row ! i of int_value n \<Rightarrow> n | _ \<Rightarrow> 0)
     (\<lambda>row i. case row ! i of bool_value v \<Rightarrow> v | _ \<Rightarrow> False)
     (\<lambda>row i. case row ! i of string_value v \<Rightarrow> v | _ \<Rightarrow> [])
     (Some \<lparr>response_status = OK,
            records = [[int_value 2, bool_value True, string_value ''addr-a'']]\<rparr>)
     ''a.com'' ''title''
   = \<lparr>transactions_run = [],
      callback_runs = [Some \<lparr>publisher_key = ''a.com'', status = 2, excluded = True,
                             address = ''addr-a'', banner = Some ''title''\<rparr>]\<rparr>"
  using OnGetRecord_absent_or_composed
    [of "Some \<lparr>response_status = OK,
            records = [[int_value 2, bool_value True, string_value ''addr-a'']]\<rparr>"
        "\<lambda>row i. case row ! i of int_value n \<Rightarrow> n | _ \<Rightarrow> 0"
        "\<lambda>row i. case row ! i of bool_value v \<Rightarrow> v | _ \<Rightarrow> False"
        "\<lambda>row i. case row ! i of string_value v \<Rightarrow> v | _ \<Rightarrow> []"
        "''a.com''" "''title''"
        "\<lparr>response_status = OK,
            records = [[int_value 2, bool_value True, string_value ''addr-a'']]\<rparr>"
        "[int_value 2, bool_value True, string_value ''addr-a'']"]
  by simp

text \<open>
  C10. Whenever \<^verbatim>\<open>GetRecord\<close> hands its callback a record, the record's key is the queried
  key and its banner is not null: it is the banner the banner store gave, or the new empty
  banner when the store gave none.
\<close>

theorem GetRecord_present_record:
  "Some info \<in> set (callback_runs (GetRecord ledger gi gb gs new_banner banner_GetRecord key)) \<Longrightarrow>
   publisher_key info = key \<and> banner info \<noteq> None
   \<and> banner info = Some (case banner_GetRecord key of None \<Rightarrow> new_banner | Some b \<Rightarrow> b)"
  by (auto simp add: GetRecord_def OnGetRecordBanner_def RunDBTransaction_def OnGetRecord_def
      run_callback_def Let_def split: option.splits if_splits)

theorem GetRecord_present_record_witness:
  "Some \<lparr>publisher_key = ''a.com'', status = 2, excluded = True, address = ''addr-a'',
         banner = Some ''empty''\<rparr>
     \<in> set (callback_runs (GetRecord
         (\<lambda>t. Some \<lparr>response_status = OK,
                     records = [[int_value 2, bool_value True, string_value ''addr-a'']]\<rparr>)
         (\<lambda>row i. case row ! i of int_value n \<Rightarrow> n | _ \<Rightarrow> 0)
         (\<lambda>row i. case row ! i of bool_value v \<Rightarrow> v | _ \<Rightarrow> False)
         (\<lambda>row i. case row ! i of string_value v \<Rightarrow> v | _ \<Rightarrow> [])
         ''empty'' (\<lambda>k. None) ''a.com''))
   \<and> publisher_key \<lparr>publisher_key = ''a.com'', status = 2, excluded = True,
         address = ''addr-a'', banner = Some ''empty''\<rparr> = ''a.com''
   \<and> banner \<lparr>publisher_key = ''a.com'', status = 2, excluded = True,
         address = ''addr-a'', banner = Some ''empty''\<rparr> = Some ''empty''"
proof -
  have h: "Some \<lparr>publisher_key = ''a.com'', status = 2, excluded = True, address = ''addr-a'',
         banner = Some ''empty''\<rparr>
     \<in> set (callback_runs (GetRecord
         (\<lambda>t. Some \<lparr>response_status = OK,
                     records = [[int_value 2, bool_value True, string_value ''addr-a'']]\<rparr>)
         (\<lambda>row i. case row ! i of int_value n \<Rightarrow> n | _ \<Rightarrow> 0)
         (\<lambda>row i. case row ! i of bool_value v \<Rightarrow> v | _ \<Rightarrow> False)
         (\<lambda>row i. case row ! i of string_value v \<Rightarrow> v | _ \<Rightarrow> [])
         ''empty'' (\<lambda>k. None) ''a.com''))"
    by (simp add: GetRecord_def OnGetRecordBanner_def RunDBTransaction_def OnGetRecord_def
        run_callback_def Let_def)
  from GetRecord_present_record [OF h] h show ?thesis
    by simp
qed

section \<open>Properties of the Binance service\<close>

subsection \<open>The code challenge\<close>

lemma find_if_takeWhile: "find_if p xs = length (takeWhile (\<lambda>x. \<not> p x) xs)"
  by (induction xs) simp_all

lemma take_rev_dropWhile:
  "take (length s - length (takeWhile q (rev s))) s = rev (dropWhile q (rev s))"
proof -
  have "rev s = takeWhile q (rev s) @ dropWhile q (rev s)"
    by simp
  then have "s = rev (dropWhile q (rev s)) @ rev (takeWhile q (rev s))"
    by (metis rev_append rev_rev_ident)
  moreover have "length (rev (dropWhile q (rev s))) = length s - length (takeWhile q (rev s))"
    by (metis length_rev length_append add_diff_cancel_left' takeWhile_dropWhile_id)
  ultimately show ?thesis
    by (metis append_eq_conv_conj)
qed

lemma erase_trailing:
  "take (length s - find_if (\<lambda>ch. ch \<noteq> CHR ''='') (rev s)) s = strip_padding s"
  by (simp add: find_if_takeWhile take_rev_dropWhile strip_padding_def)

lemma replace_url_safe:
  "replace (replace s CHR ''+'' CHR ''-'') CHR ''/'' CHR ''_'' = map url_safe s"
  by (induction s) (simp_all add: url_safe_def)

lemma GetCodeChallenge_spec: "GetCodeChallenge v = base64url_nopad (SHA256HashString v)"
  by (simp add: GetCodeChallenge_def base64url_nopad_def Let_def replace_url_safe erase_trailing)

text \<open>
  The digest of \<^verbatim>\<open>abc\<close>, stage by stage. A rotation only moves the low bits of the word
  to the top, which keeps the numerals of the evaluation within the word.
\<close>

lemma rotr_low_bits: "rotr n x = drop_bit n x OR push_bit (32 - n) (take_bit n x)"
proof -
  have "push_bit (32 - n) (take_bit n x) = push_bit (32 - n) x"
    by (rule bit_word_eqI) (auto simp add: bit_simps)
  then show ?thesis
    by (simp add: rotr_def)
qed

lemma schedule_numeral:
  "schedule (numeral k) ws =
   schedule (pred_numeral k) ((sigma1 (ws ! 1) + ws ! 6 + sigma0 (ws ! 14) + ws ! 15) # ws)"
  by (simp add: numeral_eq_Suc)

lemma abc_bytes: "map of_char ''abc'' = [97, 98, 99 :: nat]"
  by simp

lemma replicate_52: "replicate 52 (0::nat) =
  [0, 0, 0, 0, 0, 0, 0, 0, 0, 0, 0, 0, 0, 0, 0, 0, 0, 0, 0, 0, 0, 0, 0, 0, 0, 0,
   0, 0, 0, 0, 0, 0, 0, 0, 0, 0, 0, 0, 0, 0, 0, 0, 0, 0, 0, 0, 0, 0, 0, 0, 0, 0]"
  by code_simp

lemma abc_pad: "sha_pad [97, 98, 99] = abc_padded"
  by (simp add: sha_pad_def be64_bytes_def be32_bytes_def replicate_52 abc_padded_def)

lemma one_block: "length p = 64 \<Longrightarrow> blocks (length p div 64) s p = compress s (words_of p)"
  by simp

lemma abc_words: "words_of abc_padded = abc_block"
  by (simp add: be32_def abc_block_def abc_padded_def)

lemma abc_sched: "schedule 48 (rev abc_block) = rev abc_schedule"
  by (simp add: abc_block_def abc_schedule_def schedule_numeral sigma0_def sigma1_def
      rotr_low_bits)

lemma abc_rounds:
  "rounds K256 abc_schedule H256 =
   (1349398616, 3550093669, 80891244, 3093179625, 1593118500, 4212265488, 2492278198, 2518632596)"
  by (simp add: abc_schedule_def H256_def K256_def round1_def Sigma0_def Sigma1_def Ch_def
      Maj_def rotr_low_bits Let_def)

lemma abc_compress:
  "compress H256 abc_block =
   (3128432319, 2399260650, 1094795486, 1571693091, 2953011619, 2518121116, 3021012833, 4060091821)"
  by (simp add: compress_def abc_sched abc_rounds) (simp add: H256_def add_state_def)

lemma abc_digest: "SHA256HashString ''abc'' = map char_of abc_digest_bytes"
proof -
  have len: "length abc_padded = 64"
    by (simp add: abc_padded_def)
  have "blocks (length abc_padded div 64) H256 abc_padded = compress H256 (words_of abc_padded)"
    by (rule one_block [OF len])
  then have "blocks (length abc_padded div 64) H256 abc_padded = compress H256 abc_block"
    by (simp only: abc_words)
  then show ?thesis
    by (simp add: SHA256HashString_def Let_def abc_bytes abc_pad abc_compress digest_bytes_def
        be32_bytes_def abc_digest_bytes_def)
qed

lemma abc_base64:
  "Base64Encode (map char_of abc_digest_bytes) = ''ungWv48Bz+pBQUDeXa4iI7ADYaOWF3qctBD/YfIAFa0=''"
  by (simp add: Base64Encode_def abc_digest_bytes_def b64_def kBase64Alphabet_def)

lemma abc_challenge: "GetCodeChallenge ''abc'' = ''ungWv48Bz-pBQUDeXa4iI7ADYaOWF3qctBD_YfIAFa0''"
  by (simp add: GetCodeChallenge_def Let_def abc_digest abc_base64)

text \<open>
  C2. For every verifier, \<^verbatim>\<open>GetCodeChallenge\<close> is the Base64 text of the SHA-256 digest
  of the verifier with every \<^verbatim>\<open>+\<close> replaced by \<^verbatim>\<open>-\<close>, every \<^verbatim>\<open>/\<close> by \<^verbatim>\<open>_\<close> and all
  trailing \<^verbatim>\<open>=\<close> removed. For the verifier \<^verbatim>\<open>abc\<close> it is the known challenge of that
  vector.
\<close>

theorem GetCodeChallenge_base64url:
  "GetCodeChallenge v = base64url_nopad (SHA256HashString v)
   \<and> GetCodeChallenge ''abc'' = ''ungWv48Bz-pBQUDeXa4iI7ADYaOWF3qctBD_YfIAFa0''"
  by (simp only: GetCodeChallenge_spec abc_challenge [unfolded GetCodeChallenge_spec] simp_thms)

theorem GetCodeChallenge_base64url_witness:
  "base64url_nopad (SHA256HashString ''abc'') = ''ungWv48Bz-pBQUDeXa4iI7ADYaOWF3qctBD_YfIAFa0''"
  by (rule trans [OF conjunct1 [OF GetCodeChallenge_base64url, symmetric]
        conjunct2 [OF GetCodeChallenge_base64url]])

subsection \<open>Saving and loading the tokens\<close>

text \<open>
  C5. When the encryption of the access token or of the refresh token fails,
  \<^verbatim>\<open>SetAccessTokens\<close> returns false and the stored preferences are what they were.
\<close>

theorem SetAccessTokens_encrypt_failure_prefs:
  "EncryptString access = None \<or> EncryptString refresh = None \<Longrightarrow>
   fst (SetAccessTokens EncryptString s access refresh) = False
   \<and> prefs (snd (SetAccessTokens EncryptString s access refresh)) = prefs s"
  by (auto simp add: SetAccessTokens_def Let_def split: option.splits)

theorem SetAccessTokens_encrypt_failure_prefs_witness:
  "(\<lambda>p. if p = [] then Some [] else None) ''access'' = None
   \<and> fst (SetAccessTokens (\<lambda>p. if p = [] then Some [] else None)
        \<lparr>access_token = ''a'', refresh_token = ''r'', code_challenge = [], code_verifier = [],
         prefs = (\<lambda>n. ''stored'')\<rparr> ''access'' ''refresh'') = False
   \<and> prefs (snd (SetAccessTokens (\<lambda>p. if p = [] then Some [] else None)
        \<lparr>access_token = ''a'', refresh_token = ''r'', code_challenge = [], code_verifier = [],
         prefs = (\<lambda>n. ''stored'')\<rparr> ''access'' ''refresh'')) kBinanceRefreshToken = ''stored''"
  using SetAccessTokens_encrypt_failure_prefs
    [of "\<lambda>p. if p = [] then Some [] else None" "''access''" "''refresh''"
        "\<lparr>access_token = ''a'', refresh_token = ''r'', code_challenge = [], code_verifier = [],
         prefs = (\<lambda>n. ''stored'')\<rparr>"]
  by simp

text \<open>
  C9. \<^verbatim>\<open>SetAccessTokens\<close> assigns the token fields before it encrypts: when an encryption
  fails, the fields hold the new tokens while both stored preferences hold their old
  values.
\<close>

theorem SetAccessTokens_encrypt_failure_diverges:
  "EncryptString access = None \<or> EncryptString refresh = None \<Longrightarrow>
   access_token (snd (SetAccessTokens EncryptString s access refresh)) = access
   \<and> refresh_token (snd (SetAccessTokens EncryptString s access refresh)) = refresh
   \<and> prefs (snd (SetAccessTokens EncryptString s access refresh)) kBinanceAccessToken
       = prefs s kBinanceAccessToken
   \<and> prefs (snd (SetAccessTokens EncryptString s access refresh)) kBinanceRefreshToken
       = prefs s kBinanceRefreshToken"
  by (auto simp add: SetAccessTokens_def Let_def split: option.splits)

theorem SetAccessTokens_encrypt_failure_diverges_witness:
  "(\<lambda>p. if p = ''access'' then Some ''ssecca'' else None) ''refresh'' = None
   \<and> access_token (snd (SetAccessTokens (\<lambda>p. if p = ''access'' then Some ''ssecca'' else None)
        \<lparr>access_token = ''a'', refresh_token = ''r'', code_challenge = [], code_verifier = [],
         prefs = (\<lambda>n. ''stored'')\<rparr> ''access'' ''refresh'')) = ''access''
   \<and> refresh_token (snd (SetAccessTokens (\<lambda>p. if p = ''access'' then Some ''ssecca'' else None)
        \<lparr>access_token = ''a'', refresh_token = ''r'', code_challenge = [], code_verifier = [],
         prefs = (\<lambda>n. ''stored'')\<rparr> ''access'' ''refresh'')) = ''refresh''
   \<and> prefs (snd (SetAccessTokens (\<lambda>p. if p = ''access'' then Some ''ssecca'' else None)
        \<lparr>access_token = ''a'', refresh_token = ''r'', code_challenge = [], code_verifier = [],
         prefs = (\<lambda>n. ''stored'')\<rparr> ''access'' ''refresh'')) kBinanceAccessToken = ''stored''"
  using SetAccessTokens_encrypt_failure_diverges
    [of "\<lambda>p. if p = ''access'' then Some ''ssecca'' else None" "''access''" "''refresh''"
        "\<lparr>access_token = ''a'', refresh_token = ''r'', code_challenge = [], code_verifier = [],
         prefs = (\<lambda>n. ''stored'')\<rparr>"]
  by simp

text \<open>
  C4, as amended. \<^verbatim>\<open>LoadTokensFromPrefs\<close> returns false on every failure. When a Base64
  decoding fails, both token fields are what they were. When the decryption of the access
  token fails, the access token field holds what the decryption left in it and the refresh
  token field is what it was. When the access token decrypts and the refresh token does
  not, the access token field holds the decrypted access token.
\<close>

theorem LoadTokensFromPrefs_failure:
  "(Base64Decode (prefs s kBinanceAccessToken) = None
      \<or> Base64Decode (prefs s kBinanceRefreshToken) = None \<longrightarrow>
    LoadTokensFromPrefs Base64Decode DecryptString s = (False, s))
   \<and> (Base64Decode (prefs s kBinanceAccessToken) = Some ea
      \<and> Base64Decode (prefs s kBinanceRefreshToken) = Some er
      \<and> DecryptString ea (access_token s) = (False, left) \<longrightarrow>
    LoadTokensFromPrefs Base64Decode DecryptString s = (False, s\<lparr>access_token := left\<rparr>))
   \<and> (Base64Decode (prefs s kBinanceAccessToken) = Some ea
      \<and> Base64Decode (prefs s kBinanceRefreshToken) = Some er
      \<and> DecryptString ea (access_token s) = (True, plain)
      \<and> DecryptString er (refresh_token s) = (False, left) \<longrightarrow>
    LoadTokensFromPrefs Base64Decode DecryptString s
      = (False, s\<lparr>access_token := plain, refresh_token := left\<rparr>))"
  by (auto simp add: LoadTokensFromPrefs_def Let_def split: option.splits prod.splits)

theorem LoadTokensFromPrefs_failure_witness:
  "LoadTokensFromPrefs
     (\<lambda>e. if e = ''YWJj'' then Some ''abc'' else if e = ''eHl6'' then Some ''xyz'' else None)
     (\<lambda>c out. if c = ''abc'' then (True, ''token'') else (False, out))
     \<lparr>access_token = [], refresh_token = [], code_challenge = [], code_verifier = [],
      prefs = (\<lambda>n. case n of kBinanceAccessToken \<Rightarrow> ''YWJj'' | kBinanceRefreshToken \<Rightarrow> ''e?l6'')\<rparr>
   = (False,
      \<lparr>access_token = [], refresh_token = [], code_challenge = [], code_verifier = [],
       prefs = (\<lambda>n. case n of kBinanceAccessToken \<Rightarrow> ''YWJj'' | kBinanceRefreshToken \<Rightarrow> ''e?l6'')\<rparr>)"
  using LoadTokensFromPrefs_failure
    [of "\<lambda>e. if e = ''YWJj'' then Some ''abc'' else if e = ''eHl6'' then Some ''xyz'' else None"
        "\<lparr>access_token = [], refresh_token = [], code_challenge = [], code_verifier = [],
          prefs = (\<lambda>n. case n of kBinanceAccessToken \<Rightarrow> ''YWJj'' | kBinanceRefreshToken \<Rightarrow> ''e?l6'')\<rparr>"
        "\<lambda>c out. if c = ''abc'' then (True, ''token'') else (False, out)"]
  by simp

text \<open>
  C4, as stated, fails: the stored access token decodes and decrypts, the stored refresh
  token decodes and does not decrypt. The load, from empty fields, returns false and
  leaves the decrypted access token in its field; so does the constructor.
\<close>

theorem LoadTokensFromPrefs_partial_counterexample:
  "fst (LoadTokensFromPrefs example_Base64Decode example_DecryptString unloaded_service) = False
   \<and> access_token (unloaded_service) = []
   \<and> access_token
         (snd (LoadTokensFromPrefs example_Base64Decode example_DecryptString unloaded_service))
       = ''token''
   \<and> access_token (BinanceService_new example_Base64Decode example_DecryptString example_prefs)
       = ''token''"
  by (simp add: BinanceService_new_def LoadTokensFromPrefs_def Let_def unloaded_service_def
      example_prefs_def example_Base64Decode_def example_DecryptString_def)

subsection \<open>Revoking the tokens\<close>

text \<open>
  C7, as amended. After a successful revocation the code challenge, the code verifier and
  both token fields are empty. The stored preferences are written through
  \<^verbatim>\<open>SetAccessTokens\<close>: when the empty string encrypts, both hold the Base64 text of its
  ciphertext, which is the empty string when that ciphertext is empty; when it does not
  encrypt, both are what they were.
\<close>

theorem OnRevokeToken_success:
  "200 \<le> http_status \<and> http_status \<le> 299 \<and> RevokeTokenFromJSON body False \<Longrightarrow>
   callback_args (snd (OnRevokeToken RevokeTokenFromJSON EncryptString s http_status body)) = [True]
   \<and> code_challenge (fst (OnRevokeToken RevokeTokenFromJSON EncryptString s http_status body)) = []
   \<and> code_verifier (fst (OnRevokeToken RevokeTokenFromJSON EncryptString s http_status body)) = []
   \<and> access_token (fst (OnRevokeToken RevokeTokenFromJSON EncryptString s http_status body)) = []
   \<and> refresh_token (fst (OnRevokeToken RevokeTokenFromJSON EncryptString s http_status body)) = []
   \<and> prefs (fst (OnRevokeToken RevokeTokenFromJSON EncryptString s http_status body))
       = (case EncryptString [] of
            None \<Rightarrow> prefs s
          | Some c \<Rightarrow> (prefs s)(kBinanceAccessToken := Base64Encode c,
                                kBinanceRefreshToken := Base64Encode c))
   \<and> (EncryptString [] = Some [] \<longrightarrow>
        prefs (fst (OnRevokeToken RevokeTokenFromJSON EncryptString s http_status body))
          kBinanceAccessToken = []
        \<and> prefs (fst (OnRevokeToken RevokeTokenFromJSON EncryptString s http_status body))
          kBinanceRefreshToken = [])"
  by (auto simp add: OnRevokeToken_def SetAccessTokens_def Base64Encode_def Let_def
      split: option.splits)

theorem OnRevokeToken_success_witness:
  "(200::int) \<le> 204 \<and> (204::int) \<le> 299
   \<and> callback_args (snd (OnRevokeToken (\<lambda>b q. True)
        (\<lambda>p. if p = [] then Some [] else Some (''v11'' @ p))
        \<lparr>access_token = ''a'', refresh_token = ''r'', code_challenge = ''c'', code_verifier = ''v'',
         prefs = (\<lambda>n. ''stored'')\<rparr> 204 ''{}'')) = [True]
   \<and> access_token (fst (OnRevokeToken (\<lambda>b q. True)
        (\<lambda>p. if p = [] then Some [] else Some (''v11'' @ p))
        \<lparr>access_token = ''a'', refresh_token = ''r'', code_challenge = ''c'', code_verifier = ''v'',
         prefs = (\<lambda>n. ''stored'')\<rparr> 204 ''{}'')) = []
   \<and> refresh_token (fst (OnRevokeToken (\<lambda>b q. True)
        (\<lambda>p. if p = [] then Some [] else Some (''v11'' @ p))
        \<lparr>access_token = ''a'', refresh_token = ''r'', code_challenge = ''c'', code_verifier = ''v'',
         prefs = (\<lambda>n. ''stored'')\<rparr> 204 ''{}'')) = []
   \<and> prefs (fst (OnRevokeToken (\<lambda>b q. True)
        (\<lambda>p. if p = [] then Some [] else Some (''v11'' @ p))
        \<lparr>access_token = ''a'', refresh_token = ''r'', code_challenge = ''c'', code_verifier = ''v'',
         prefs = (\<lambda>n. ''stored'')\<rparr> 204 ''{}'')) kBinanceAccessToken = []
   \<and> prefs (fst (OnRevokeToken (\<lambda>b q. True)
        (\<lambda>p. if p = [] then Some [] else Some (''v11'' @ p))
        \<lparr>access_token = ''a'', refresh_token = ''r'', code_challenge = ''c'', code_verifier = ''v'',
         prefs = (\<lambda>n. ''stored'')\<rparr> 204 ''{}'')) kBinanceRefreshToken = []"
  using OnRevokeToken_success
    [of 204 "\<lambda>b q. True" "''{}''" "\<lambda>p. if p = [] then Some [] else Some (''v11'' @ p)"
        "\<lparr>access_token = ''a'', refresh_token = ''r'', code_challenge = ''c'',
          code_verifier = ''v'', prefs = (\<lambda>n. ''stored'')\<rparr>"]
  by (simp add: Base64Encode_def)

text \<open>
  C7, as stated, fails: with an encryption that puts a version prefix before the
  plaintext, a successful revocation stores the Base64 text of that prefix in both
  preferences; with an encryption that fails, a successful revocation leaves the stored
  access token as it was.
\<close>

theorem OnRevokeToken_prefs_counterexample:
  "callback_args (snd (OnRevokeToken accepting_RevokeTokenFromJSON prefix_EncryptString
       connected_service 200 ''{}'')) = [True]
   \<and> prefs (fst (OnRevokeToken accepting_RevokeTokenFromJSON prefix_EncryptString
       connected_service 200 ''{}'')) kBinanceAccessToken = ''djEw''
   \<and> prefs (fst (OnRevokeToken accepting_RevokeTokenFromJSON prefix_EncryptString
       connected_service 200 ''{}'')) kBinanceRefreshToken = ''djEw''
   \<and> callback_args (snd (OnRevokeToken accepting_RevokeTokenFromJSON failing_EncryptString
       connected_service 200 ''{}'')) = [True]
   \<and> prefs (fst (OnRevokeToken accepting_RevokeTokenFromJSON failing_EncryptString
       connected_service 200 ''{}'')) kBinanceAccessToken = ''stored''
   \<and> prefs (fst (OnRevokeToken accepting_RevokeTokenFromJSON failing_EncryptString
       connected_service 200 ''{}'')) kBinanceRefreshToken = ''stored''"
  by (simp add: OnRevokeToken_def SetAccessTokens_def Let_def Base64Encode_def b64_def
      kBase64Alphabet_def accepting_RevokeTokenFromJSON_def prefix_EncryptString_def
      failing_EncryptString_def connected_service_def)

subsection \<open>Responses outside the 2xx range\<close>

text \<open>
  C6. For a status below 200 or above 299, each of the eight handlers hands nothing to the
  parser and runs its callback once with its defaults: the empty map, the price
  \<^verbatim>\<open>0.00\<close>, the volume \<^verbatim>\<open>0\<close>, empty strings, and false where there is a success flag;
  the revoke handler leaves the service as it was. For a status from 200 to 299 each
  handler hands the body to the parser.
\<close>

theorem handlers_outside_2xx:
  "(http_status < 200 \<or> 299 < http_status \<longrightarrow>
      OnGetAccountBalances p1 http_status body = \<lparr>parsed = [], callback_args = [(Map.empty, False)]\<rparr>
    \<and> OnGetTickerPrice p2 http_status body = \<lparr>parsed = [], callback_args = [''0.00'']\<rparr>
    \<and> OnGetTickerVolume p3 http_status body = \<lparr>parsed = [], callback_args = [''0'']\<rparr>
    \<and> OnGetConvertQuote p4 http_status body = \<lparr>parsed = [], callback_args = [([], [], [], [])]\<rparr>
    \<and> OnGetDepositInfo p5 http_status body = \<lparr>parsed = [], callback_args = [([], [], False)]\<rparr>
    \<and> OnConfirmConvert p6 http_status body = \<lparr>parsed = [], callback_args = [(False, [])]\<rparr>
    \<and> OnGetConvertAssets p7 http_status body = \<lparr>parsed = [], callback_args = [Map.empty]\<rparr>
    \<and> OnRevokeToken p8 EncryptString s http_status body
        = (s, \<lparr>parsed = [], callback_args = [False]\<rparr>))
   \<and> (200 \<le> http_status \<and> http_status \<le> 299 \<longrightarrow>
      parsed (OnGetAccountBalances p1 http_status body) = [body]
    \<and> parsed (OnGetTickerPrice p2 http_status body) = [body]
    \<and> parsed (OnGetTickerVolume p3 http_status body) = [body]
    \<and> parsed (OnGetConvertQuote p4 http_status body) = [body]
    \<and> parsed (OnGetDepositInfo p5 http_status body) = [body]
    \<and> parsed (OnConfirmConvert p6 http_status body) = [body]
    \<and> parsed (OnGetConvertAssets p7 http_status body) = [body]
    \<and> parsed (snd (OnRevokeToken p8 EncryptString s http_status body)) = [body])"
  by (auto simp add: OnGetAccountBalances_def OnGetTickerPrice_def OnGetTickerVolume_def
      OnGetConvertQuote_def OnGetDepositInfo_def OnConfirmConvert_def OnGetConvertAssets_def
      OnRevokeToken_def Let_def split: prod.splits)

theorem handlers_outside_2xx_witness:
  "OnGetAccountBalances (\<lambda>b m. m(b \<mapsto> b)) 404 ''Not Found''
     = \<lparr>parsed = [], callback_args = [(Map.empty, False)]\<rparr>
   \<and> OnGetTickerPrice (\<lambda>b p. b) 404 ''Not Found'' = \<lparr>parsed = [], callback_args = [''0.00'']\<rparr>
   \<and> OnGetTickerVolume (\<lambda>b p. b) 404 ''Not Found'' = \<lparr>parsed = [], callback_args = [''0'']\<rparr>
   \<and> OnGetConvertQuote (\<lambda>b q. (b, b, b, b)) 404 ''Not Found''
     = \<lparr>parsed = [], callback_args = [([], [], [], [])]\<rparr>
   \<and> OnGetDepositInfo (\<lambda>b q. (b, b)) 404 ''Not Found''
     = \<lparr>parsed = [], callback_args = [([], [], False)]\<rparr>
   \<and> OnConfirmConvert (\<lambda>b q. (b, True)) 404 ''Not Found''
     = \<lparr>parsed = [], callback_args = [(False, [])]\<rparr>
   \<and> OnGetConvertAssets (\<lambda>b m. m(b \<mapsto> [b])) 404 ''Not Found''
     = \<lparr>parsed = [], callback_args = [Map.empty]\<rparr>
   \<and> OnRevokeToken (\<lambda>b q. True) (\<lambda>p. Some p)
       \<lparr>access_token = ''a'', refresh_token = ''r'', code_challenge = ''c'', code_verifier = ''v'',
        prefs = (\<lambda>n. ''stored'')\<rparr> 404 ''Not Found''
     = (\<lparr>access_token = ''a'', refresh_token = ''r'', code_challenge = ''c'', code_verifier = ''v'',
         prefs = (\<lambda>n. ''stored'')\<rparr>, \<lparr>parsed = [], callback_args = [False]\<rparr>)"
  using handlers_outside_2xx [of 404 "\<lambda>b m. m(b \<mapsto> b)" "''Not Found''" "\<lambda>b p. b" "\<lambda>b p. b"
      "\<lambda>b q. (b, b, b, b)" "\<lambda>b q. (b, b)" "\<lambda>b q. (b, True)" "\<lambda>b m. m(b \<mapsto> [b])"
      "\<lambda>b q. True" "\<lambda>p. Some p"
      "\<lparr>access_token = ''a'', refresh_token = ''r'', code_challenge = ''c'', code_verifier = ''v'',
        prefs = (\<lambda>n. ''stored'')\<rparr>"]
  by simp

end
